theory Spec2Isabelle
  imports Main "HOL-Library.AList"
begin

section \<open>The relational store\<close>

text \<open>
  The tables of \<^verbatim>\<open>create_database.py\<close> that the verified functions read or write.
  A table is the list of its rows, in storage order. Of \<^verbatim>\<open>posts\<close> only the columns
  \<^verbatim>\<open>id\<close> and \<^verbatim>\<open>email\<close> are read by the code below (\<^verbatim>\<open>email\<close> is nullable);
  of \<^verbatim>\<open>users\<close> only \<^verbatim>\<open>email\<close>, the target of a foreign key. Timestamps are seconds.

  The state also holds the one psycopg2 connection that post.py opens when the module is
  loaded (line 8) and that every request shares. A statement that fails leaves it in a
  failed transaction; \<^verbatim>\<open>VoteManager\<close> re-raises without a rollback, and nothing in the
  code rolls back, so from then on every statement sent on it is refused. Queries made
  with \<^verbatim>\<open>read_table\<close> open an engine of their own and are not affected.
\<close>

record posts_row =
  posts_id :: int
  posts_email :: "string option"

record post_likes_row =
  pl_post_id :: int
  pl_email :: string
  pl_created_at :: int
  pl_updated_at :: int
  current_status :: int

record database =
  posts :: "posts_row list"
  users :: "string list"
  post_likes :: "post_likes_row list"
  in_failed_transaction :: bool

text \<open>
  Every raise of the source is a value: \<^verbatim>\<open>HTTPException(status_code, detail)\<close>; Python's
  \<^verbatim>\<open>IndexError\<close>, \<^verbatim>\<open>TypeError\<close> and \<^verbatim>\<open>OverflowError\<close>; the errors of the store
  (psycopg2, re-raised by \<^verbatim>\<open>VoteManager\<close>): a statement on a connection in a failed
  transaction, a value outside the range of an \<^verbatim>\<open>INT\<close> column, the constraint violations,
  and a query the store rejects; and what comes out of the JWT library uncaught: an
  algorithm it does not support, and an exception that is no \<^verbatim>\<open>InvalidTokenError\<close>.
\<close>

datatype error =
    HTTPException int string
  | IndexError
  | TypeError
  | OverflowError
  | InFailedSqlTransaction
  | NumericValueOutOfRange
  | NotNullViolation
  | UniqueViolation
  | ForeignKeyViolation
  | ProgrammingError
  | NotImplementedError
  | PyJWTError

text \<open>The values of an \<^verbatim>\<open>INT\<close> column: 32 bits, signed.\<close>

definition int4 :: "int \<Rightarrow> bool" where
  "int4 n = (- 2147483648 \<le> n \<and> n \<le> 2147483647)"

text \<open>
  The values of a token's claims: JSON strings and integers. The claims are a dict, in
  insertion order: \<^verbatim>\<open>dict.get\<close> is \<open>map_of\<close> and \<^verbatim>\<open>dict.update\<close> on one key is
  \<open>AList.update\<close>.
\<close>

datatype claim_value = Str string | Num int

type_synonym claims = "(string \<times> claim_value) list"

section \<open>Ownership guard: \<^verbatim>\<open>verify_post_owner\<close> (models.py)\<close>

text \<open>
  \<^verbatim>\<open>read_table\<close> returns the rows of its query as a DataFrame and re-raises on a store
  failure: it never returns \<^verbatim>\<open>None\<close>. Each query of the verified code is a function of
  the store. The rows of \<^verbatim>\<open>SELECT email FROM posts WHERE id = {post_id}\<close>:
\<close>

definition select_email_from_posts :: "database \<Rightarrow> int \<Rightarrow> string option list" where
  "select_email_from_posts db post_id =
     map posts_email (filter (\<lambda>p. posts_id p = post_id) (posts db))"

definition verify_post_owner :: "database \<Rightarrow> int \<Rightarrow> string \<Rightarrow> string \<Rightarrow> error + unit" where
  "verify_post_owner db post_id current_user_email method =
     (case select_email_from_posts db post_id of
        [] \<Rightarrow> Inl (HTTPException 403
                 (''The post you are trying to '' @ method @ '' does not exist.''))
      | post_owner_email # _ \<Rightarrow>
          (case post_owner_email of
             None \<Rightarrow> Inl (HTTPException 403
                 (''This is a development post, unauthorized users cannot '' @ method @ '' it.''))
           | Some owner \<Rightarrow>
               if \<not> owner = current_user_email
               then Inl (HTTPException 403
                 (''The post is owned by '' @ owner @ '', '' @ current_user_email
                    @ '' is not authorized to '' @ method @ '' it.''))
               else Inr ()))"

section \<open>Vote engine: \<^verbatim>\<open>VoteManager\<close> (database_functions.py) and \<^verbatim>\<open>like_post\<close> (post.py)\<close>

record vote_data =
  data_post_id :: int
  data_email :: "string option"

text \<open>
  Both statements are sent on the shared connection and are refused when it is in a failed
  transaction. \<^verbatim>\<open>INSERT INTO post_likes\<close> under the table's definition: \<^verbatim>\<open>post_id\<close> and
  \<^verbatim>\<open>current_status\<close> are \<^verbatim>\<open>INT\<close>, \<^verbatim>\<open>email\<close> is \<^verbatim>\<open>NOT NULL\<close>, \<^verbatim>\<open>(post_id, email)\<close> is the
  primary key, \<^verbatim>\<open>post_id\<close> references \<^verbatim>\<open>posts(id)\<close> and \<^verbatim>\<open>email\<close> references
  \<^verbatim>\<open>users(email)\<close>. \<^verbatim>\<open>UPDATE post_likes ... WHERE post_id = %s AND email = %s\<close> rewrites the
  matching rows; a null \<^verbatim>\<open>email\<close> parameter matches none. A statement that fails writes
  nothing and leaves the connection in a failed transaction; one that succeeds is committed.
  A method that is neither of the two sends no statement.
\<close>

definition VoteManager ::
  "vote_data \<Rightarrow> string \<Rightarrow> int \<Rightarrow> int \<Rightarrow> database \<Rightarrow> (error + string) \<times> database" where
  "VoteManager data method status now db =
     (if method = ''add_new_vote'' then
        (if in_failed_transaction db then (Inl InFailedSqlTransaction, db)
         else if \<not> int4 (data_post_id data) \<or> \<not> int4 status
         then (Inl NumericValueOutOfRange, db\<lparr>in_failed_transaction := True\<rparr>)
         else
           (case data_email data of
              None \<Rightarrow> (Inl NotNullViolation, db\<lparr>in_failed_transaction := True\<rparr>)
            | Some user_id \<Rightarrow>
                if list_ex (\<lambda>r. pl_post_id r = data_post_id data \<and> pl_email r = user_id)
                     (post_likes db)
                then (Inl UniqueViolation, db\<lparr>in_failed_transaction := True\<rparr>)
                else if \<not> list_ex (\<lambda>p. posts_id p = data_post_id data) (posts db)
                then (Inl ForeignKeyViolation, db\<lparr>in_failed_transaction := True\<rparr>)
                else if \<not> list_ex (\<lambda>u. u = user_id) (users db)
                then (Inl ForeignKeyViolation, db\<lparr>in_failed_transaction := True\<rparr>)
                else (Inr ''New vote added successfully.'',
                      db\<lparr>post_likes := post_likes db @
                        [\<lparr>pl_post_id = data_post_id data, pl_email = user_id,
                          pl_created_at = now, pl_updated_at = now, current_status = status\<rparr>]\<rparr>)))
      else if method = ''update_vote'' then
        (if in_failed_transaction db then (Inl InFailedSqlTransaction, db)
         else if \<not> int4 status
         then (Inl NumericValueOutOfRange, db\<lparr>in_failed_transaction := True\<rparr>)
         else
           (Inr ''Vote updated successfully.'',
            db\<lparr>post_likes :=
              map (\<lambda>r. if pl_post_id r = data_post_id data \<and> Some (pl_email r) = data_email data
                        then r\<lparr>current_status := status, pl_updated_at := now\<rparr> else r)
                  (post_likes db)\<rparr>))
      else (Inr ''Invalid method. Use 'add_new_vote' or 'update_vote'.'', db))"

text \<open>
  Modelled from the spec: the request body \<^verbatim>\<open>Vote\<close> (imported from app.models, whose
  class declaration is not in the sources): \<^verbatim>\<open>{direction_of_vote, id_}\<close>, both integers
  (the field \<^verbatim>\<open>id_\<close>, the post's id, is \<open>vote_id\<close> here).
\<close>

record Vote =
  direction_of_vote :: int
  vote_id :: int

record vote_response =
  Message :: string
  total_likes :: int
  total_negative_votes :: int
  total_interactions :: int

text \<open>
  The lookup of the caller's vote row. The parameter \<^verbatim>\<open>:email\<close> is
  \<^verbatim>\<open>token_data.get('user_email')\<close>: a missing claim is a null parameter, which no row
  equals; an integer claim is compared with a \<^verbatim>\<open>VARCHAR\<close> column, which the store rejects.
\<close>

definition select_post_likes ::
  "database \<Rightarrow> int \<Rightarrow> claim_value option \<Rightarrow> error + post_likes_row list option" where
  "select_post_likes db i e =
     (case e of
        None \<Rightarrow> Inr (Some [])
      | Some (Num n) \<Rightarrow> Inl ProgrammingError
      | Some (Str s) \<Rightarrow>
          Inr (Some (filter (\<lambda>r. pl_post_id r = i \<and> pl_email r = s) (post_likes db))))"

text \<open>
  \<^verbatim>\<open>FROM posts p JOIN post_likes pl ON pl.post_id = p.id\<close>: one row for each pair of a
  post and a vote row on it, over the whole of both tables.
\<close>

definition posts_join_post_likes :: "database \<Rightarrow> (posts_row \<times> post_likes_row) list" where
  "posts_join_post_likes db =
     concat (map (\<lambda>p. map (\<lambda>pl. (p, pl))
                         (filter (\<lambda>pl. pl_post_id pl = posts_id p) (post_likes db)))
                 (posts db))"

text \<open>
  The aggregate query and the response built from it. \<^verbatim>\<open>SUM\<close> over no rows is null,
  and \<^verbatim>\<open>int\<close> of it raises; \<^verbatim>\<open>COUNT\<close> is then 0.
\<close>

definition post_likes_query :: "database \<Rightarrow> error + vote_response" where
  "post_likes_query db =
     (let joined = map snd (posts_join_post_likes db) in
      if joined = [] then Inl TypeError
      else Inr \<lparr>Message = ''Vote successfully recorded.'',
                total_likes = int (length (filter (\<lambda>pl. current_status pl > 0) joined)),
                total_negative_votes = int (length (filter (\<lambda>pl. current_status pl = - 1) joined)),
                total_interactions = int (length joined)\<rparr>)"

definition sql_text :: "claim_value option \<Rightarrow> string option" where
  "sql_text e = (case e of Some (Str s) \<Rightarrow> Some s | _ \<Rightarrow> None)"

definition like_post ::
  "Vote \<Rightarrow> claims \<Rightarrow> int \<Rightarrow> database \<Rightarrow> (error + vote_response) \<times> database" where
  "like_post vote token_data now db =
     (let direction = direction_of_vote vote; i = vote_id vote in
      if direction \<notin> {- 1, 0, 1}
      then (Inl (HTTPException 401 ''Forbidden, user can only like, dislike, or neutralize.''), db)
      else
        (case select_post_likes db i (map_of token_data ''user_email'') of
           Inl e \<Rightarrow> (Inl e, db)
         | Inr None \<Rightarrow>
             (Inl (HTTPException 404
                ''Post not found or user has no previous interaction with this post.''), db)
         | Inr (Some user_post_like_status) \<Rightarrow>
             (let data = \<lparr>data_post_id = i, data_email = sql_text (map_of token_data ''user_email'')\<rparr>;
                  voted =
                    (case user_post_like_status of
                       [] \<Rightarrow> VoteManager data ''add_new_vote'' 1 now db
                     | row # _ \<Rightarrow>
                         (let user_last_choice = current_status row in
                          if direction \<ge> 0
                          then VoteManager data ''update_vote'' direction now db
                          else VoteManager data ''update_vote''
                                 (abs user_last_choice + direction) now db))
              in case voted of
                   (Inl e, db') \<Rightarrow> (Inl e, db')
                 | (Inr _, db') \<Rightarrow> (post_likes_query db', db'))))"

text \<open>The stored status of a (post, voter) pair: that of its row, if there is one.\<close>

definition vote_status :: "database \<Rightarrow> int \<Rightarrow> string \<Rightarrow> int option" where
  "vote_status db i e =
     (case filter (\<lambda>r. pl_post_id r = i \<and> pl_email r = e) (post_likes db) of
        [] \<Rightarrow> None
      | row # _ \<Rightarrow> Some (current_status row))"

text \<open>
  Vocabulary of the statements below: the last step of \<^verbatim>\<open>like_post\<close> (the aggregate is
  computed only when \<^verbatim>\<open>VoteManager\<close> did not raise), the two foreign-key targets, and the
  stores that accept a first vote row of the voter \<open>e\<close> on the post \<open>i\<close>.
\<close>

definition finish_vote :: "(error + string) \<times> database \<Rightarrow> (error + vote_response) \<times> database" where
  "finish_vote voted =
     (case voted of (Inl e, db') \<Rightarrow> (Inl e, db') | (Inr _, db') \<Rightarrow> (post_likes_query db', db'))"

definition post_exists :: "database \<Rightarrow> int \<Rightarrow> bool" where
  "post_exists db i = list_ex (\<lambda>p. posts_id p = i) (posts db)"

definition user_exists :: "database \<Rightarrow> string \<Rightarrow> bool" where
  "user_exists db e = list_ex (\<lambda>u. u = e) (users db)"

definition accepts_first_vote :: "database \<Rightarrow> int \<Rightarrow> string \<Rightarrow> bool" where
  "accepts_first_vote db i e =
     (\<not> in_failed_transaction db \<and> int4 i \<and> post_exists db i \<and> user_exists db e)"

text \<open>Concrete stores and requests, on which the theorems are evaluated.\<close>

definition voter :: string where
  "voter = ''voter@x.io''"

definition token_voter :: claims where
  "token_voter = [(''user_email'', Str voter), (''exp'', Num 2800)]"

definition vote_row :: "int \<Rightarrow> post_likes_row" where
  "vote_row s = \<lparr>pl_post_id = 42, pl_email = voter, pl_created_at = 0, pl_updated_at = 0,
                 current_status = s\<rparr>"

definition store :: "post_likes_row list \<Rightarrow> database" where
  "store rows =
     \<lparr>posts = [\<lparr>posts_id = 42, posts_email = Some ''owner@x.io''\<rparr>,
               \<lparr>posts_id = 7, posts_email = None\<rparr>],
      users = [voter, ''owner@x.io''],
      post_likes = rows,
      in_failed_transaction = False\<rparr>"

definition request :: "int \<Rightarrow> int \<Rightarrow> Vote" where
  "request d i = \<lparr>direction_of_vote = d, vote_id = i\<rparr>"



definition dev_vote_row :: post_likes_row where
  "dev_vote_row = \<lparr>pl_post_id = 7, pl_email = ''owner@x.io'', pl_created_at = 0,
                    pl_updated_at = 0, current_status = - 1\<rparr>"

text \<open>The vote rows whose post exists: what the join with \<^verbatim>\<open>posts\<close> keeps.\<close>

definition votes_on_existing_posts :: "database \<Rightarrow> post_likes_row list" where
  "votes_on_existing_posts db = filter (\<lambda>pl. post_exists db (pl_post_id pl)) (post_likes db)"

section \<open>Token service: \<^verbatim>\<open>create_access_token\<close> and \<^verbatim>\<open>decode_access_token\<close> (oauth2.py)\<close>

text \<open>
  The JWT library (PyJWT) is not code of the repository: its two functions are parameters
  of the model. \<^verbatim>\<open>jwt.encode(payload, key, algorithm)\<close> returns a token or raises;
  \<^verbatim>\<open>jwt.decode(token, key, algorithms)\<close>, at the time \<open>now\<close> it reads from the clock
  (seconds), returns the claims or raises. Of its exceptions the handlers of
  \<^verbatim>\<open>decode_access_token\<close> tell apart \<^verbatim>\<open>ExpiredSignatureError\<close>, every other
  \<^verbatim>\<open>InvalidTokenError\<close>, and the rest, written \<open>OtherPyJWTError\<close>, which they do not catch.
  A datetime in a payload is the integer of its seconds, as the library writes it.
\<close>

datatype jwt_exception = ExpiredSignatureError | InvalidTokenError | OtherPyJWTError

record pyjwt =
  jwt_encode :: "claims \<Rightarrow> string \<Rightarrow> string \<Rightarrow> error + string"
  jwt_decode :: "int \<Rightarrow> string \<Rightarrow> string \<Rightarrow> string list \<Rightarrow> jwt_exception + claims"

text \<open>The settings of config.py, read once from the environment.\<close>

record settings =
  secret_key :: string
  algorithm :: string
  access_token_expire_minutes :: int

text \<open>
  The datetimes of Python run from 0001-01-01 00:00:00 to 9999-12-31 23:59:59.999999, here
  in whole seconds since 1970, in UTC; a timedelta, here in seconds, holds at most
  999999999 days either way.
\<close>

definition in_datetime_range :: "int \<Rightarrow> bool" where
  "in_datetime_range t = (- 62135596800 \<le> t \<and> t \<le> 253402300799)"

definition in_timedelta_range :: "int \<Rightarrow> bool" where
  "in_timedelta_range s = (- 999999999 \<le> s div 86400 \<and> s div 86400 \<le> 999999999)"

text \<open>
  \<open>now\<close> is \<^verbatim>\<open>datetime.now(timezone.utc)\<close>, in whole seconds. Both
  \<^verbatim>\<open>timedelta(minutes=...)\<close> and its sum with \<open>now\<close> raise \<^verbatim>\<open>OverflowError\<close> outside
  their ranges; what \<^verbatim>\<open>jwt.encode\<close> raises is not caught.
\<close>

definition create_access_token :: "pyjwt \<Rightarrow> settings \<Rightarrow> int \<Rightarrow> claims \<Rightarrow> error + string" where
  "create_access_token lib cfg now data =
     (let delta = 60 * access_token_expire_minutes cfg
      in if \<not> in_timedelta_range delta then Inl OverflowError
         else
           (let expire = now + delta
            in if \<not> in_datetime_range expire then Inl OverflowError
               else
                 (let to_encode = AList.update ''exp'' (Num expire) data
                  in jwt_encode lib to_encode (secret_key cfg) (algorithm cfg))))"

text \<open>Python's \<^verbatim>\<open>s.split(sep)\<close> for a separator of one character.\<close>

fun str_split :: "char \<Rightarrow> string \<Rightarrow> string list" where
  "str_split sep [] = [[]]"
| "str_split sep (c # cs) =
     (if c = sep then [] # str_split sep cs
      else (case str_split sep cs of [] \<Rightarrow> [[c]] | w # ws \<Rightarrow> (c # w) # ws))"

text \<open>
  The header is split on spaces and its second word is the token; with fewer than two
  words the index raises, outside the \<^verbatim>\<open>try\<close>.
\<close>

definition decode_access_token ::
  "pyjwt \<Rightarrow> settings \<Rightarrow> int \<Rightarrow> string option \<Rightarrow> error + claims" where
  "decode_access_token lib cfg now Authorization =
     (case Authorization of
        None \<Rightarrow> Inl (HTTPException 401 ''Authorization header missing'')
      | Some header \<Rightarrow>
          (case str_split CHR '' '' header of
             _ # token # _ \<Rightarrow>
               (case jwt_decode lib now token (secret_key cfg) [algorithm cfg] of
                  Inr decoded_jwt \<Rightarrow> Inr decoded_jwt
                | Inl ExpiredSignatureError \<Rightarrow> Inl (HTTPException 401 ''Token has expired'')
                | Inl InvalidTokenError \<Rightarrow> Inl (HTTPException 401 ''Invalid token'')
                | Inl OtherPyJWTError \<Rightarrow> Inl PyJWTError)
           | _ \<Rightarrow> Inl IndexError))"

text \<open>
  Vocabulary of the statements on tokens: a token presented as a Bearer header, and the
  validation at \<open>now'\<close> of the token issued at \<open>now\<close>.
\<close>

definition bearer :: "string \<Rightarrow> string option" where
  "bearer token = Some (''Bearer '' @ token)"

definition validate_issued ::
  "pyjwt \<Rightarrow> settings \<Rightarrow> int \<Rightarrow> int \<Rightarrow> claims \<Rightarrow> error + claims" where
  "validate_issued lib cfg now now' data =
     (case create_access_token lib cfg now data of
        Inl e \<Rightarrow> Inl e
      | Inr token \<Rightarrow> decode_access_token lib cfg now' (bearer token))"

subsection \<open>A reference library\<close>

text \<open>
  One library with this interface, on which the statements about tokens are evaluated. It
  is symbolic: a token is the serialisation of the algorithm, the claims and the key it
  was signed with, and only that key verifies it. Every character is written as its eight
  bits and an integer in binary, and the parts are separated by \<open>:\<close>, \<open>;\<close> and \<open>.\<close>,
  so a token holds no space, as the base64url text of a real token holds none. It signs
  with the HMAC algorithms. Decoding rejects a token that does not parse, whose algorithm
  is not among those allowed, or that another key signed; then it rejects a token that is
  not yet valid (\<^verbatim>\<open>iat\<close> or \<^verbatim>\<open>nbf\<close> after \<open>now\<close>), and a token is expired when
  \<open>exp \<le> now\<close>. A time claim that is a string is rejected here.
\<close>

definition bit_char :: "bool \<Rightarrow> char" where
  "bit_char b = (if b then CHR ''1'' else CHR ''0'')"

fun enc_char :: "char \<Rightarrow> string" where
  "enc_char (Char a b c d e f g h) = map bit_char [a, b, c, d, e, f, g, h]"

definition enc_str :: "string \<Rightarrow> string" where
  "enc_str s = concat (map enc_char s)"

fun dec_str :: "string \<Rightarrow> string" where
  "dec_str (a # b # c # d # e # f # g # h # rest) =
     Char (a = CHR ''1'') (b = CHR ''1'') (c = CHR ''1'') (d = CHR ''1'')
          (e = CHR ''1'') (f = CHR ''1'') (g = CHR ''1'') (h = CHR ''1'') # dec_str rest"
| "dec_str _ = []"

fun enc_nat :: "nat \<Rightarrow> string" where
  "enc_nat n = (if n = 0 then [] else bit_char (odd n) # enc_nat (n div 2))"

fun dec_nat :: "string \<Rightarrow> nat" where
  "dec_nat [] = 0"
| "dec_nat (c # cs) = (if c = CHR ''1'' then 1 else 0) + 2 * dec_nat cs"

declare enc_nat.simps [simp del]

definition enc_value :: "claim_value \<Rightarrow> string" where
  "enc_value v =
     (case v of
        Str s \<Rightarrow> CHR ''s'' # enc_str s
      | Num n \<Rightarrow> (if n < 0 then CHR ''m'' else CHR ''p'') # enc_nat (nat (abs n)))"

definition dec_value :: "string \<Rightarrow> claim_value option" where
  "dec_value s =
     (case s of
        [] \<Rightarrow> None
      | t # r \<Rightarrow>
          if t = CHR ''s'' then Some (Str (dec_str r))
          else if t = CHR ''p'' then Some (Num (int (dec_nat r)))
          else if t = CHR ''m'' then Some (Num (- int (dec_nat r)))
          else None)"

definition enc_item :: "string \<times> claim_value \<Rightarrow> string" where
  "enc_item kv = enc_str (fst kv) @ CHR '':'' # enc_value (snd kv)"

definition dec_item :: "string \<Rightarrow> (string \<times> claim_value) option" where
  "dec_item s =
     (case str_split CHR '':'' s of
        [k, v] \<Rightarrow> map_option (Pair (dec_str k)) (dec_value v)
      | _ \<Rightarrow> None)"

definition enc_items :: "claims \<Rightarrow> string" where
  "enc_items ps = concat (map (\<lambda>kv. enc_item kv @ [CHR '';'']) ps)"

definition dec_items :: "string \<Rightarrow> claims option" where
  "dec_items s = those (map dec_item (butlast (str_split CHR '';'' s)))"

record jws =
  jws_alg :: string
  jws_payload :: claims
  jws_key :: string

definition serialise :: "jws \<Rightarrow> string" where
  "serialise j =
     enc_str (jws_alg j) @ CHR ''.'' # enc_items (jws_payload j) @ CHR ''.'' # enc_str (jws_key j)"

definition parse :: "string \<Rightarrow> jws option" where
  "parse s =
     (case str_split CHR ''.'' s of
        [a, p, k] \<Rightarrow>
          (case dec_items p of
             None \<Rightarrow> None
           | Some ps \<Rightarrow> Some \<lparr>jws_alg = dec_str a, jws_payload = ps, jws_key = dec_str k\<rparr>)
      | _ \<Rightarrow> None)"

definition time_claim :: "claims \<Rightarrow> string \<Rightarrow> (int option) option" where
  "time_claim pl k =
     (case map_of pl k of
        None \<Rightarrow> Some None
      | Some (Num t) \<Rightarrow> Some (Some t)
      | Some (Str _) \<Rightarrow> None)"

definition ref_encode :: "claims \<Rightarrow> string \<Rightarrow> string \<Rightarrow> error + string" where
  "ref_encode pl key alg =
     (if alg \<in> set [''HS256'', ''HS384'', ''HS512'']
      then Inr (serialise \<lparr>jws_alg = alg, jws_payload = pl, jws_key = key\<rparr>)
      else Inl NotImplementedError)"

definition ref_decode :: "int \<Rightarrow> string \<Rightarrow> string \<Rightarrow> string list \<Rightarrow> jwt_exception + claims" where
  "ref_decode now token key algorithms =
     (case parse token of
        None \<Rightarrow> Inl InvalidTokenError
      | Some j \<Rightarrow>
          if jws_alg j \<notin> set algorithms then Inl InvalidTokenError
          else if jws_key j \<noteq> key then Inl InvalidTokenError
          else
            (case (time_claim (jws_payload j) ''iat'', time_claim (jws_payload j) ''nbf'',
                   time_claim (jws_payload j) ''exp'') of
               (Some iat_t, Some nbf_t, Some exp_t) \<Rightarrow>
                 if (case iat_t of None \<Rightarrow> False | Some t \<Rightarrow> now < t) then Inl InvalidTokenError
                 else if (case nbf_t of None \<Rightarrow> False | Some t \<Rightarrow> now < t) then Inl InvalidTokenError
                 else if (case exp_t of None \<Rightarrow> False | Some t \<Rightarrow> t \<le> now)
                 then Inl ExpiredSignatureError
                 else Inr (jws_payload j)
             | _ \<Rightarrow> Inl InvalidTokenError))"

definition ref_pyjwt :: pyjwt where
  "ref_pyjwt = \<lparr>jwt_encode = ref_encode, jwt_decode = ref_decode\<rparr>"

text \<open>Concrete settings and claims.\<close>

definition config :: settings where
  "config = \<lparr>secret_key = ''s3cret'', algorithm = ''HS256'', access_token_expire_minutes = 30\<rparr>"

definition login_claims :: claims where
  "login_claims = [(''user_email'', Str voter)]"

section \<open>Lemmas on the vote engine\<close>

lemma snd_finish_vote: "snd (finish_vote voted) = snd voted"
  by (cases voted; cases "fst voted") (simp_all add: finish_vote_def)

lemma like_post_unfold:
  "like_post vote token_data now db =
     (if direction_of_vote vote \<notin> {- 1, 0, 1}
      then (Inl (HTTPException 401 ''Forbidden, user can only like, dislike, or neutralize.''), db)
      else
        (case select_post_likes db (vote_id vote) (map_of token_data ''user_email'') of
           Inl e \<Rightarrow> (Inl e, db)
         | Inr None \<Rightarrow>
             (Inl (HTTPException 404
                ''Post not found or user has no previous interaction with this post.''), db)
         | Inr (Some rows) \<Rightarrow>
             finish_vote
               (case rows of
                  [] \<Rightarrow> VoteManager \<lparr>data_post_id = vote_id vote,
                          data_email = sql_text (map_of token_data ''user_email'')\<rparr> ''add_new_vote'' 1 now db
                | row # _ \<Rightarrow>
                    if direction_of_vote vote \<ge> 0
                    then VoteManager \<lparr>data_post_id = vote_id vote,
                          data_email = sql_text (map_of token_data ''user_email'')\<rparr> ''update_vote''
                          (direction_of_vote vote) now db
                    else VoteManager \<lparr>data_post_id = vote_id vote,
                          data_email = sql_text (map_of token_data ''user_email'')\<rparr> ''update_vote''
                          (abs (current_status row) + direction_of_vote vote) now db)))"
  by (simp add: like_post_def Let_def finish_vote_def
      split: sum.splits option.splits list.splits)

lemma like_post_valid:
  assumes "direction_of_vote vote \<in> {- 1, 0, 1}"
  shows "like_post vote token_data now db =
        (case select_post_likes db (vote_id vote) (map_of token_data ''user_email'') of
           Inl e \<Rightarrow> (Inl e, db)
         | Inr None \<Rightarrow>
             (Inl (HTTPException 404
                ''Post not found or user has no previous interaction with this post.''), db)
         | Inr (Some rows) \<Rightarrow>
             finish_vote
               (case rows of
                  [] \<Rightarrow> VoteManager \<lparr>data_post_id = vote_id vote,
                          data_email = sql_text (map_of token_data ''user_email'')\<rparr> ''add_new_vote'' 1 now db
                | row # _ \<Rightarrow>
                    if direction_of_vote vote \<ge> 0
                    then VoteManager \<lparr>data_post_id = vote_id vote,
                          data_email = sql_text (map_of token_data ''user_email'')\<rparr> ''update_vote''
                          (direction_of_vote vote) now db
                    else VoteManager \<lparr>data_post_id = vote_id vote,
                          data_email = sql_text (map_of token_data ''user_email'')\<rparr> ''update_vote''
                          (abs (current_status row) + direction_of_vote vote) now db))"
proof -
  have "\<not> direction_of_vote vote \<notin> {- 1, 0, 1}"
    using assms by simp
  then show ?thesis
    unfolding like_post_unfold by (rule if_not_P)
qed

lemma like_post_invalid:
  "direction_of_vote vote \<notin> {- 1, 0, 1} \<Longrightarrow>
   like_post vote token_data now db =
     (Inl (HTTPException 401 ''Forbidden, user can only like, dislike, or neutralize.''), db)"
  unfolding like_post_unfold by (rule if_P)

lemma like_post_Str:
  assumes "direction_of_vote vote \<in> {- 1, 0, 1}" and "map_of token_data ''user_email'' = Some (Str e)"
  shows "like_post vote token_data now db =
     finish_vote
       (case filter (\<lambda>r. pl_post_id r = vote_id vote \<and> pl_email r = e) (post_likes db) of
          [] \<Rightarrow> VoteManager \<lparr>data_post_id = vote_id vote, data_email = Some e\<rparr> ''add_new_vote'' 1 now db
        | row # _ \<Rightarrow>
            if direction_of_vote vote \<ge> 0
            then VoteManager \<lparr>data_post_id = vote_id vote, data_email = Some e\<rparr> ''update_vote''
                   (direction_of_vote vote) now db
            else VoteManager \<lparr>data_post_id = vote_id vote, data_email = Some e\<rparr> ''update_vote''
                   (abs (current_status row) + direction_of_vote vote) now db)"
proof -
  have t: "sql_text (map_of token_data ''user_email'') = Some e"
    by (simp add: assms(2) sql_text_def)
  have q: "select_post_likes db (vote_id vote) (map_of token_data ''user_email'') =
      Inr (Some (filter (\<lambda>r. pl_post_id r = vote_id vote \<and> pl_email r = e) (post_likes db)))"
    by (simp add: assms(2) select_post_likes_def)
  show ?thesis
    unfolding like_post_valid [OF assms(1)] q t by simp
qed

lemma VoteManager_failed:
  assumes "in_failed_transaction db" and "method = ''add_new_vote'' \<or> method = ''update_vote''"
  shows "VoteManager data method status now db = (Inl InFailedSqlTransaction, db)"
  using assms by (auto simp add: VoteManager_def)

lemma VoteManager_update:
  assumes "\<not> in_failed_transaction db"
  shows "VoteManager \<lparr>data_post_id = i, data_email = Some e\<rparr> ''update_vote'' s now db =
     (if int4 s
      then (Inr ''Vote updated successfully.'',
            db\<lparr>post_likes := map (\<lambda>r. if pl_post_id r = i \<and> pl_email r = e
                                   then r\<lparr>current_status := s, pl_updated_at := now\<rparr> else r)
                              (post_likes db)\<rparr>)
      else (Inl NumericValueOutOfRange, db\<lparr>in_failed_transaction := True\<rparr>))"
  using assms by (simp add: VoteManager_def)

lemma VoteManager_add:
  assumes "\<not> in_failed_transaction db"
  shows "VoteManager \<lparr>data_post_id = i, data_email = Some e\<rparr> ''add_new_vote'' s now db =
     (if \<not> int4 i \<or> \<not> int4 s
      then (Inl NumericValueOutOfRange, db\<lparr>in_failed_transaction := True\<rparr>)
      else if list_ex (\<lambda>r. pl_post_id r = i \<and> pl_email r = e) (post_likes db)
      then (Inl UniqueViolation, db\<lparr>in_failed_transaction := True\<rparr>)
      else if \<not> list_ex (\<lambda>p. posts_id p = i) (posts db)
      then (Inl ForeignKeyViolation, db\<lparr>in_failed_transaction := True\<rparr>)
      else if \<not> list_ex (\<lambda>u. u = e) (users db)
      then (Inl ForeignKeyViolation, db\<lparr>in_failed_transaction := True\<rparr>)
      else (Inr ''New vote added successfully.'',
            db\<lparr>post_likes := post_likes db @
              [\<lparr>pl_post_id = i, pl_email = e, pl_created_at = now, pl_updated_at = now,
                current_status = s\<rparr>]\<rparr>))"
  using assms by (simp add: VoteManager_def)

lemma filter_update_rows:
  "filter (\<lambda>r. pl_post_id r = i \<and> pl_email r = e)
     (map (\<lambda>r. if pl_post_id r = i \<and> pl_email r = e
               then r\<lparr>current_status := s, pl_updated_at := t\<rparr> else r) xs)
   = map (\<lambda>r. r\<lparr>current_status := s, pl_updated_at := t\<rparr>)
       (filter (\<lambda>r. pl_post_id r = i \<and> pl_email r = e) xs)"
  by (induction xs) auto

lemma vote_status_update:
  "vote_status (db\<lparr>post_likes := map (\<lambda>r. if pl_post_id r = i \<and> pl_email r = e
                                   then r\<lparr>current_status := s, pl_updated_at := t\<rparr> else r)
                              (post_likes db)\<rparr>) i e
   = (case vote_status db i e of None \<Rightarrow> None | Some _ \<Rightarrow> Some s)"
  by (simp add: vote_status_def filter_update_rows split: list.splits)

lemma vote_status_add:
  "vote_status db i e = None \<Longrightarrow>
   vote_status (db\<lparr>post_likes := post_likes db @
              [\<lparr>pl_post_id = i, pl_email = e, pl_created_at = t, pl_updated_at = t',
                current_status = s\<rparr>]\<rparr>) i e = Some s"
  by (simp add: vote_status_def split: list.splits)

lemma vote_status_None:
  "vote_status db i e = None \<longleftrightarrow>
     filter (\<lambda>r. pl_post_id r = i \<and> pl_email r = e) (post_likes db) = []"
  by (simp add: vote_status_def split: list.splits)

lemma vote_status_connection:
  "vote_status (db\<lparr>in_failed_transaction := b\<rparr>) i e = vote_status db i e"
  by (simp add: vote_status_def)

text \<open>
  The state that a request with a valid direction and a voter leaves: what
  \<^verbatim>\<open>VoteManager\<close> made of the store, whatever the aggregate query then returns.
\<close>

lemma like_post_state:
  assumes "direction_of_vote vote \<in> {- 1, 0, 1}" and "map_of token_data ''user_email'' = Some (Str e)"
  shows "snd (like_post vote token_data now db) =
     (if in_failed_transaction db then db
      else
        (case filter (\<lambda>r. pl_post_id r = vote_id vote \<and> pl_email r = e) (post_likes db) of
           [] \<Rightarrow>
             if int4 (vote_id vote) \<and> post_exists db (vote_id vote) \<and> user_exists db e
             then db\<lparr>post_likes := post_likes db @
                    [\<lparr>pl_post_id = vote_id vote, pl_email = e, pl_created_at = now,
                      pl_updated_at = now, current_status = 1\<rparr>]\<rparr>
             else db\<lparr>in_failed_transaction := True\<rparr>
         | row # _ \<Rightarrow>
             if int4 (if direction_of_vote vote \<ge> 0 then direction_of_vote vote
                      else abs (current_status row) + direction_of_vote vote)
             then db\<lparr>post_likes :=
                    map (\<lambda>r. if pl_post_id r = vote_id vote \<and> pl_email r = e
                              then r\<lparr>current_status :=
                                       (if direction_of_vote vote \<ge> 0 then direction_of_vote vote
                                        else abs (current_status row) + direction_of_vote vote),
                                     pl_updated_at := now\<rparr>
                              else r)
                        (post_likes db)\<rparr>
             else db\<lparr>in_failed_transaction := True\<rparr>))"
proof (cases "in_failed_transaction db")
  note lp = like_post_Str [of vote token_data e now db, OF assms]
  case True
  then show ?thesis
    by (simp add: lp snd_finish_vote VoteManager_failed split: list.splits)
next
  note lp = like_post_Str [of vote token_data e now db, OF assms]
  case healthy: False
  show ?thesis
  proof (cases "filter (\<lambda>r. pl_post_id r = vote_id vote \<and> pl_email r = e) (post_likes db)")
    case Nil
    then have nex: "\<not> list_ex (\<lambda>r. pl_post_id r = vote_id vote \<and> pl_email r = e) (post_likes db)"
      by (simp add: list_ex_iff filter_empty_conv)
    have one: "int4 1"
      by (simp add: int4_def)
    show ?thesis
      using healthy
      by (simp add: lp snd_finish_vote Nil VoteManager_add [OF healthy] nex one
          post_exists_def user_exists_def)
  next
    case (Cons row rest)
    show ?thesis
      using healthy
      by (simp add: lp snd_finish_vote Cons VoteManager_update [OF healthy])
  qed
qed

lemma int4_dislike: "int4 x \<Longrightarrow> int4 (abs x - 1)"
  unfolding int4_def by arith

lemma int4_direction: "d \<in> {- 1, 0, 1} \<Longrightarrow> int4 d"
  by (auto simp add: int4_def)

lemma like_post_status:
  assumes "direction_of_vote vote \<in> {- 1, 0, 1}" and "map_of token_data ''user_email'' = Some (Str e)"
  shows "vote_status (snd (like_post vote token_data now db)) (vote_id vote) e =
     (if in_failed_transaction db then vote_status db (vote_id vote) e
      else
        (case vote_status db (vote_id vote) e of
           None \<Rightarrow>
             if int4 (vote_id vote) \<and> post_exists db (vote_id vote) \<and> user_exists db e
             then Some 1 else None
         | Some x \<Rightarrow>
             Some (if direction_of_vote vote = - 1
                   then (if int4 (abs x - 1) then abs x - 1 else x)
                   else direction_of_vote vote)))"
proof (cases "filter (\<lambda>r. pl_post_id r = vote_id vote \<and> pl_email r = e) (post_likes db)")
  note st = like_post_state [of vote token_data e now db, OF assms]
  case Nil
  then have none: "vote_status db (vote_id vote) e = None"
    by (simp add: vote_status_None)
  show ?thesis
    by (simp add: st Nil none vote_status_add vote_status_connection)
next
  note st = like_post_state [of vote token_data e now db, OF assms]
  case (Cons row rest)
  then have some: "vote_status db (vote_id vote) e = Some (current_status row)"
    by (simp add: vote_status_def)
  from assms(1) have "direction_of_vote vote = - 1 \<or> direction_of_vote vote = 0
      \<or> direction_of_vote vote = 1"
    by simp
  then show ?thesis
    by (auto simp add: st Cons some vote_status_update vote_status_connection int4_def)
qed

lemma like_post_connection:
  assumes "direction_of_vote vote \<in> {- 1, 0, 1}" and "map_of token_data ''user_email'' = Some (Str e)"
  shows "in_failed_transaction (snd (like_post vote token_data now db)) =
     (in_failed_transaction db \<or>
      (case vote_status db (vote_id vote) e of
         None \<Rightarrow> \<not> (int4 (vote_id vote) \<and> post_exists db (vote_id vote) \<and> user_exists db e)
       | Some x \<Rightarrow> direction_of_vote vote = - 1 \<and> \<not> int4 (abs x - 1)))"
proof (cases "filter (\<lambda>r. pl_post_id r = vote_id vote \<and> pl_email r = e) (post_likes db)")
  note st = like_post_state [of vote token_data e now db, OF assms]
  case Nil
  then have none: "vote_status db (vote_id vote) e = None"
    by (simp add: vote_status_None)
  show ?thesis
    by (simp add: st Nil none)
next
  note st = like_post_state [of vote token_data e now db, OF assms]
  case (Cons row rest)
  then have some: "vote_status db (vote_id vote) e = Some (current_status row)"
    by (simp add: vote_status_def)
  from assms(1) have "direction_of_vote vote = - 1 \<or> direction_of_vote vote = 0
      \<or> direction_of_vote vote = 1"
    by simp
  then show ?thesis
    by (auto simp add: st Cons some int4_def)
qed

lemma token_voter_email: "map_of token_voter ''user_email'' = Some (Str voter)"
  by (simp add: token_voter_def)

lemma vote_status_store: "vote_status (store [vote_row s]) 42 voter = Some s"
  by (simp add: vote_status_def store_def vote_row_def)

lemma vote_status_store_empty: "vote_status (store []) 42 voter = None"
  by (simp add: vote_status_def store_def)

lemma post_exists_store: "post_exists (store rows) 42"
  by (simp add: post_exists_def store_def)

lemma user_exists_store: "user_exists (store rows) voter"
  by (simp add: user_exists_def store_def)

lemma healthy_store: "\<not> in_failed_transaction (store rows)"
  by (simp add: store_def)

lemmas eval_defs = like_post_def Let_def request_def token_voter_def select_post_likes_def
  sql_text_def store_def vote_row_def dev_vote_row_def VoteManager_def vote_status_def
  post_likes_query_def posts_join_post_likes_def voter_def int4_def

section \<open>The vote transition table\<close>

text \<open>
  C1 (as amended). For a request with a direction in \<open>{-1, 0, 1}\<close> whose token names the
  voter \<open>e\<close>, served while the shared connection is not in a failed transaction: when
  the pair (post, \<open>e\<close>) has no vote row and the post (its id an \<^verbatim>\<open>INT\<close>) and the voter
  exist, \<^verbatim>\<open>like_post\<close> leaves a row of status 1, whatever the direction; when the row has
  status \<open>x\<close> and the direction is 0 or 1, the new status is the direction; when the
  direction is -1, the new status is \<open>abs x - 1\<close> (\<open>x\<close> being an \<^verbatim>\<open>INT\<close>): 1 becomes 0,
  0 becomes -1, and -1 becomes 0.
\<close>

theorem like_post_transition_table:
  assumes "direction_of_vote vote \<in> {- 1, 0, 1}" and "map_of token_data ''user_email'' = Some (Str e)"
    and "\<not> in_failed_transaction db"
  shows "(vote_status db (vote_id vote) e = None \<and> int4 (vote_id vote)
            \<and> post_exists db (vote_id vote) \<and> user_exists db e
            \<longrightarrow> vote_status (snd (like_post vote token_data now db)) (vote_id vote) e = Some 1)
       \<and> (\<forall>x. vote_status db (vote_id vote) e = Some x \<and> direction_of_vote vote \<in> {0, 1}
            \<longrightarrow> vote_status (snd (like_post vote token_data now db)) (vote_id vote) e
                  = Some (direction_of_vote vote))
       \<and> (\<forall>x. vote_status db (vote_id vote) e = Some x \<and> int4 x \<and> direction_of_vote vote = - 1
            \<longrightarrow> vote_status (snd (like_post vote token_data now db)) (vote_id vote) e
                  = Some (abs x - 1)
              \<and> (x = 1 \<longrightarrow> abs x - 1 = 0) \<and> (x = 0 \<longrightarrow> abs x - 1 = - 1)
              \<and> (x = - 1 \<longrightarrow> abs x - 1 = 0))"
  using like_post_status [of vote token_data e now db, OF assms(1,2)] assms(3) int4_dislike
  by auto

theorem like_post_transition_table_witness:
  "vote_status (snd (like_post (request 0 42) token_voter 5 (store []))) 42 voter = Some 1
   \<and> vote_status (snd (like_post (request 1 42) token_voter 5 (store [vote_row 0]))) 42 voter = Some 1
   \<and> vote_status (snd (like_post (request (- 1) 42) token_voter 5 (store [vote_row 0]))) 42 voter
       = Some (- 1)"
proof -
  have d0: "direction_of_vote (request 0 42) \<in> {- 1, 0, 1}"
    and d1: "direction_of_vote (request 1 42) \<in> {- 1, 0, 1}"
    and d2: "direction_of_vote (request (- 1) 42) \<in> {- 1, 0, 1}"
    by (simp_all add: request_def)
  have i: "vote_id (request d 42) = 42" for d
    by (simp add: request_def)
  have dd: "direction_of_vote (request d 42) = d" for d
    by (simp add: request_def)
  have r: "int4 42" "int4 0"
    by (simp_all add: int4_def)
  show ?thesis
    using
      like_post_transition_table [where vote = "request 0 42" and token_data = token_voter
        and e = voter and db = "store []" and now = 5, OF d0 token_voter_email healthy_store]
      like_post_transition_table [where vote = "request 1 42" and token_data = token_voter
        and e = voter and db = "store [vote_row 0]" and now = 5, OF d1 token_voter_email healthy_store]
      like_post_transition_table [where vote = "request (- 1) 42" and token_data = token_voter
        and e = voter and db = "store [vote_row 0]" and now = 5, OF d2 token_voter_email healthy_store]
    by (simp add: i dd r vote_status_store vote_status_store_empty post_exists_store
        user_exists_store)
qed

text \<open>
  The claim as written says that a dislike at status -1 gives -2. The code computes
  \<open>abs (-1) + (-1) = 0\<close>.
\<close>

theorem like_post_dislike_at_minus_one_counterexample:
  "vote_status (store [vote_row (- 1)]) 42 voter = Some (- 1)
   \<and> vote_status (snd (like_post (request (- 1) 42) token_voter 5 (store [vote_row (- 1)]))) 42 voter
       = Some 0
   \<and> vote_status (snd (like_post (request (- 1) 42) token_voter 5 (store [vote_row (- 1)]))) 42 voter
       \<noteq> Some (- 2)"
  by (simp add: eval_defs)

section \<open>Invalid directions\<close>

text \<open>
  C6. A request whose direction is outside \<open>{-1, 0, 1}\<close> fails with HTTP 401
  "Forbidden, user can only like, dislike, or neutralize." and the store it returns is
  the store it was given: no vote row is inserted or changed.
\<close>

theorem like_post_invalid_direction:
  "direction_of_vote vote \<notin> {- 1, 0, 1} \<Longrightarrow>
   like_post vote token_data now db =
     (Inl (HTTPException 401 ''Forbidden, user can only like, dislike, or neutralize.''), db)"
  by (simp add: like_post_def Let_def)

theorem like_post_invalid_direction_witness:
  "like_post (request 2 42) token_voter 5 (store [vote_row 1]) =
     (Inl (HTTPException 401 ''Forbidden, user can only like, dislike, or neutralize.''),
      store [vote_row 1])"
proof -
  have "direction_of_vote (request 2 42) \<notin> {- 1, 0, 1}"
    by (simp add: request_def)
  then show ?thesis
    by (rule like_post_invalid_direction)
qed

section \<open>Ownership verification\<close>

lemma filter_find_None: "filter P xs = [] \<longleftrightarrow> find P xs = None"
  by (induction xs) auto

lemma filter_find_Some: "filter P xs = y # ys \<Longrightarrow> find P xs = Some y"
  by (induction xs) (auto split: if_splits)

lemma verify_post_owner_find:
  "verify_post_owner db post_id caller method =
     (case find (\<lambda>p. posts_id p = post_id) (posts db) of
        None \<Rightarrow> Inl (HTTPException 403
                 (''The post you are trying to '' @ method @ '' does not exist.''))
      | Some p \<Rightarrow>
          (case posts_email p of
             None \<Rightarrow> Inl (HTTPException 403
                 (''This is a development post, unauthorized users cannot '' @ method @ '' it.''))
           | Some owner \<Rightarrow>
               if owner = caller then Inr ()
               else Inl (HTTPException 403
                 (''The post is owned by '' @ owner @ '', '' @ caller
                    @ '' is not authorized to '' @ method @ '' it.''))))"
proof (cases "filter (\<lambda>p. posts_id p = post_id) (posts db)")
  case Nil
  then have "find (\<lambda>p. posts_id p = post_id) (posts db) = None"
    by (simp add: filter_find_None)
  with Nil show ?thesis
    by (simp add: verify_post_owner_def select_email_from_posts_def)
next
  case (Cons p ps)
  then show ?thesis
    by (simp add: verify_post_owner_def select_email_from_posts_def filter_find_Some [OF Cons]
        split: option.splits)
qed

text \<open>
  C2. \<^verbatim>\<open>verify_post_owner\<close> only reads the store. It fails with HTTP 403 "does not exist"
  when no post has the id; with HTTP 403 "development post" for every caller when the
  post's \<^verbatim>\<open>email\<close> is null; with HTTP 403 "owned by ..." when the caller differs from the
  owner; and it succeeds exactly when the caller's email is the post's \<^verbatim>\<open>email\<close>.
\<close>

theorem verify_post_owner_outcomes:
  "(find (\<lambda>p. posts_id p = post_id) (posts db) = None \<longrightarrow>
      verify_post_owner db post_id caller method =
        Inl (HTTPException 403 (''The post you are trying to '' @ method @ '' does not exist.'')))
   \<and> (\<forall>p. find (\<lambda>p. posts_id p = post_id) (posts db) = Some p \<and> posts_email p = None \<longrightarrow>
      verify_post_owner db post_id caller method =
        Inl (HTTPException 403
          (''This is a development post, unauthorized users cannot '' @ method @ '' it.'')))
   \<and> (\<forall>p owner. find (\<lambda>p. posts_id p = post_id) (posts db) = Some p
          \<and> posts_email p = Some owner \<and> owner \<noteq> caller \<longrightarrow>
      verify_post_owner db post_id caller method =
        Inl (HTTPException 403
          (''The post is owned by '' @ owner @ '', '' @ caller
             @ '' is not authorized to '' @ method @ '' it.'')))
   \<and> (verify_post_owner db post_id caller method = Inr () \<longleftrightarrow>
        (\<exists>p. find (\<lambda>p. posts_id p = post_id) (posts db) = Some p \<and> posts_email p = Some caller))"
  by (auto simp add: verify_post_owner_find split: option.splits)

lemma find_store_42: "find (\<lambda>p. posts_id p = 42) (posts (store rows))
   = Some \<lparr>posts_id = 42, posts_email = Some ''owner@x.io''\<rparr>"
  by (simp add: store_def)

lemma find_store_7: "find (\<lambda>p. posts_id p = 7) (posts (store rows))
   = Some \<lparr>posts_id = 7, posts_email = None\<rparr>"
  by (simp add: store_def)

lemma find_store_9: "find (\<lambda>p. posts_id p = 9) (posts (store rows)) = None"
  by (simp add: store_def)

theorem verify_post_owner_outcomes_witness:
  "verify_post_owner (store []) 9 voter ''delete'' =
     Inl (HTTPException 403 ''The post you are trying to delete does not exist.'')
   \<and> verify_post_owner (store []) 7 voter ''delete'' =
     Inl (HTTPException 403 ''This is a development post, unauthorized users cannot delete it.'')
   \<and> verify_post_owner (store []) 42 voter ''update'' =
     Inl (HTTPException 403
       ''The post is owned by owner@x.io, voter@x.io is not authorized to update it.'')
   \<and> verify_post_owner (store []) 42 ''owner@x.io'' ''update'' = Inr ()"
  using verify_post_owner_outcomes [of 9 "store []" voter "''delete''"]
    verify_post_owner_outcomes [of 7 "store []" voter "''delete''"]
    verify_post_owner_outcomes [of 42 "store []" voter "''update''"]
    verify_post_owner_outcomes [of 42 "store []" "''owner@x.io''" "''update''"]
  by (simp add: find_store_42 find_store_7 find_store_9 voter_def)

section \<open>The shape of \<^verbatim>\<open>like_post\<close>\<close>

lemma select_post_likes_not_None: "select_post_likes db i e \<noteq> Inr None"
  by (simp add: select_post_likes_def split: option.splits claim_value.splits)

lemma finish_vote_Inr:
  "finish_vote voted = (Inr r, db') \<Longrightarrow> snd voted = db' \<and> post_likes_query db' = Inr r"
  by (cases voted; cases "fst voted") (auto simp add: finish_vote_def)

lemma like_post_Inr:
  assumes "like_post vote token_data now db = (Inr r, db')"
  shows "post_likes_query db' = Inr r"
proof -
  obtain voted where "finish_vote voted = (Inr r, db')"
    using assms unfolding like_post_unfold
    by (auto split: if_splits sum.splits option.splits)
  then show ?thesis
    by (simp add: finish_vote_Inr)
qed

lemma VoteManager_posts:
  "posts (snd (VoteManager data method status now db)) = posts db"
  by (simp add: VoteManager_def split: option.splits)

lemma VoteManager_users:
  "users (snd (VoteManager data method status now db)) = users db"
  by (simp add: VoteManager_def split: option.splits)

lemma like_post_posts: "posts (snd (like_post vote token_data now db)) = posts db"
  unfolding like_post_unfold
  by (simp add: snd_finish_vote VoteManager_posts split: sum.splits option.splits list.splits)

lemma like_post_users: "users (snd (like_post vote token_data now db)) = users db"
  unfolding like_post_unfold
  by (simp add: snd_finish_vote VoteManager_users split: sum.splits option.splits list.splits)

lemma length_filter_disjoint:
  "(\<And>x. x \<in> set xs \<Longrightarrow> \<not> (A x \<and> B x)) \<Longrightarrow>
   length (filter A xs) + length (filter B xs) = length (filter (\<lambda>x. A x \<or> B x) xs)"
  by (induction xs) auto

lemma join_count:
  assumes "distinct (map posts_id ps)"
  shows "length (filter Q (map snd (concat (map (\<lambda>p. map (\<lambda>pl. (p, pl))
                         (filter (\<lambda>pl. pl_post_id pl = posts_id p) pls)) ps))))
       = length (filter (\<lambda>pl. Q pl \<and> list_ex (\<lambda>p. posts_id p = pl_post_id pl) ps) pls)"
  using assms
proof (induction ps)
  case Nil
  then show ?case by simp
next
  case (Cons p ps)
  have disj: "\<not> ((Q x \<and> pl_post_id x = posts_id p) \<and> (Q x \<and> list_ex (\<lambda>p. posts_id p = pl_post_id x) ps))" for x
  proof
    assume "(Q x \<and> pl_post_id x = posts_id p) \<and> (Q x \<and> list_ex (\<lambda>p. posts_id p = pl_post_id x) ps)"
    then obtain pa where "pa \<in> set ps" and "posts_id pa = posts_id p"
      by (auto simp add: list_ex_iff)
    then have "posts_id p \<in> set (map posts_id ps)"
      using image_eqI [of "posts_id p" posts_id pa "set ps"] by simp
    with Cons.prems show False
      by simp
  qed
  have "length (filter Q (map snd (concat (map (\<lambda>p. map (\<lambda>pl. (p, pl))
                         (filter (\<lambda>pl. pl_post_id pl = posts_id p) pls)) (p # ps)))))
      = length (filter (\<lambda>pl. Q pl \<and> pl_post_id pl = posts_id p) pls)
        + length (filter (\<lambda>pl. Q pl \<and> list_ex (\<lambda>p. posts_id p = pl_post_id pl) ps) pls)"
    using Cons by (simp add: comp_def conj_commute)
  also have "\<dots> = length (filter (\<lambda>pl. (Q pl \<and> pl_post_id pl = posts_id p)
        \<or> (Q pl \<and> list_ex (\<lambda>p. posts_id p = pl_post_id pl) ps)) pls)"
    by (rule length_filter_disjoint) (use disj in blast)
  also have "\<dots> = length (filter (\<lambda>pl. Q pl \<and> list_ex (\<lambda>p. posts_id p = pl_post_id pl) (p # ps)) pls)"
    by (rule arg_cong [where f = length], rule filter_cong) auto
  finally show ?case .
qed

lemma join_count_db:
  assumes "distinct (map posts_id (posts db))"
  shows "length (filter Q (map snd (posts_join_post_likes db)))
       = length (filter Q (votes_on_existing_posts db))"
  using join_count [OF assms, of Q "post_likes db"]
  by (simp add: posts_join_post_likes_def votes_on_existing_posts_def post_exists_def conj_commute)

lemma post_likes_query_Inr:
  assumes "post_likes_query db = Inr r"
  shows "total_likes r = int (length (filter (\<lambda>pl. current_status pl > 0) (map snd (posts_join_post_likes db))))"
    and "total_negative_votes r = int (length (filter (\<lambda>pl. current_status pl = - 1) (map snd (posts_join_post_likes db))))"
    and "total_interactions r = int (length (map snd (posts_join_post_likes db)))"
  using assms by (auto simp add: post_likes_query_def Let_def split: if_splits)

section \<open>The aggregate\<close>

text \<open>
  C4. When \<^verbatim>\<open>like_post\<close> succeeds, the aggregate it returns is computed on the store
  it leaves, over the vote rows of all posts (those joined to an existing post, ids being
  the primary key of \<^verbatim>\<open>posts\<close>): \<open>total_likes\<close> counts the rows with status > 0,
  \<open>total_negative_votes\<close> those with status -1, \<open>total_interactions\<close> all of them.
\<close>

theorem like_post_aggregate:
  assumes "distinct (map posts_id (posts db))"
    and "like_post vote token_data now db = (Inr r, db')"
  shows "total_likes r = int (length (filter (\<lambda>pl. current_status pl > 0) (votes_on_existing_posts db')))
       \<and> total_negative_votes r =
           int (length (filter (\<lambda>pl. current_status pl = - 1) (votes_on_existing_posts db')))
       \<and> total_interactions r = int (length (votes_on_existing_posts db'))"
proof -
  have q: "post_likes_query db' = Inr r"
    using assms(2) by (rule like_post_Inr)
  have "db' = snd (like_post vote token_data now db)"
    by (simp add: assms(2))
  then have d: "distinct (map posts_id (posts db'))"
    using assms(1) by (simp add: like_post_posts)
  have all: "length (map snd (posts_join_post_likes db')) = length (votes_on_existing_posts db')"
    using join_count_db [OF d, of "\<lambda>_. True"] by simp
  show ?thesis
    by (simp only: post_likes_query_Inr [OF q] join_count_db [OF d] all)
qed

text \<open>
  C10. Every aggregate that \<^verbatim>\<open>like_post\<close> returns satisfies
  \<open>total_likes + total_negative_votes \<le> total_interactions\<close>.
\<close>

theorem like_post_aggregate_bound:
  assumes "like_post vote token_data now db = (Inr r, db')"
  shows "total_likes r + total_negative_votes r \<le> total_interactions r"
proof -
  let ?xs = "map snd (posts_join_post_likes db')"
  have q: "post_likes_query db' = Inr r"
    using assms by (rule like_post_Inr)
  have "length (filter (\<lambda>pl. current_status pl > 0) ?xs)
        + length (filter (\<lambda>pl. current_status pl = - 1) ?xs)
      = length (filter (\<lambda>pl. current_status pl > 0 \<or> current_status pl = - 1) ?xs)"
    by (rule length_filter_disjoint) simp
  also have "\<dots> \<le> length ?xs"
    by (rule length_filter_le)
  finally show ?thesis
    using post_likes_query_Inr [OF q] by simp
qed

lemma like_post_like_42:
  "like_post (request 1 42) token_voter 5 (store [vote_row 0, dev_vote_row]) =
     (Inr \<lparr>Message = ''Vote successfully recorded.'', total_likes = 1,
            total_negative_votes = 1, total_interactions = 2\<rparr>,
      store [(vote_row 1)\<lparr>pl_updated_at := 5\<rparr>, dev_vote_row])"
  by (simp add: eval_defs)

lemma distinct_store: "distinct (map posts_id (posts (store rows)))"
  by (simp add: store_def)

theorem like_post_aggregate_witness:
  "total_likes \<lparr>Message = ''Vote successfully recorded.'', total_likes = 1,
            total_negative_votes = 1, total_interactions = 2\<rparr> =
     int (length (filter (\<lambda>pl. current_status pl > 0)
       (votes_on_existing_posts (store [(vote_row 1)\<lparr>pl_updated_at := 5\<rparr>, dev_vote_row]))))
   \<and> total_negative_votes \<lparr>Message = ''Vote successfully recorded.'', total_likes = 1,
            total_negative_votes = 1, total_interactions = 2\<rparr> =
     int (length (filter (\<lambda>pl. current_status pl = - 1)
       (votes_on_existing_posts (store [(vote_row 1)\<lparr>pl_updated_at := 5\<rparr>, dev_vote_row]))))
   \<and> total_interactions \<lparr>Message = ''Vote successfully recorded.'', total_likes = 1,
            total_negative_votes = 1, total_interactions = 2\<rparr> =
     int (length (votes_on_existing_posts (store [(vote_row 1)\<lparr>pl_updated_at := 5\<rparr>, dev_vote_row])))"
  by (rule like_post_aggregate [OF distinct_store like_post_like_42])

theorem like_post_aggregate_bound_witness:
  "total_likes \<lparr>Message = ''Vote successfully recorded.'', total_likes = 1,
            total_negative_votes = 1, total_interactions = 2\<rparr>
   + total_negative_votes \<lparr>Message = ''Vote successfully recorded.'', total_likes = 1,
            total_negative_votes = 1, total_interactions = 2\<rparr>
   \<le> total_interactions \<lparr>Message = ''Vote successfully recorded.'', total_likes = 1,
            total_negative_votes = 1, total_interactions = 2\<rparr>"
  by (rule like_post_aggregate_bound [OF like_post_like_42])

section \<open>A vote on a post that does not exist\<close>

text \<open>
  C5. The lookup of the caller's vote row returns an empty frame, never \<^verbatim>\<open>None\<close>, so
  the 404 branch is not taken: the insert is attempted and the store's foreign key
  rejects it. No row is created, the failure is the store's, not HTTP 404, and the shared
  connection is left in a failed transaction.
\<close>

theorem like_post_missing_post:
  "like_post (request 1 999) token_voter 5 (store []) =
     (Inl ForeignKeyViolation, (store [])\<lparr>in_failed_transaction := True\<rparr>)
   \<and> post_likes (snd (like_post (request 1 999) token_voter 5 (store []))) = post_likes (store [])
   \<and> fst (like_post (request 1 999) token_voter 5 (store [])) \<noteq>
       Inl (HTTPException 404 ''Post not found or user has no previous interaction with this post.'')"
  by (simp add: eval_defs)

lemma VoteManager_error:
  "fst (VoteManager data method status now db) = Inl e \<Longrightarrow>
   e \<in> {InFailedSqlTransaction, NumericValueOutOfRange, NotNullViolation, UniqueViolation,
        ForeignKeyViolation}"
  by (auto simp add: VoteManager_def split: option.splits if_splits)

lemma finish_vote_error:
  "fst (finish_vote voted) = Inl e \<Longrightarrow> fst voted = Inl e \<or> e = TypeError"
  by (cases voted; cases "fst voted")
     (auto simp add: finish_vote_def post_likes_query_def Let_def split: if_splits)

lemma select_post_likes_error: "select_post_likes db i e = Inl err \<Longrightarrow> err = ProgrammingError"
  by (auto simp add: select_post_likes_def split: option.splits claim_value.splits)

text \<open>No request at all is answered with HTTP 404 by \<^verbatim>\<open>like_post\<close>.\<close>

theorem like_post_never_404:
  "fst (like_post vote token_data now db) \<noteq> Inl (HTTPException 404 detail)"
proof
  assume a: "fst (like_post vote token_data now db) = Inl (HTTPException 404 detail)"
  show False
  proof (cases "direction_of_vote vote \<in> {- 1, 0, 1}")
    case False
    with a show False
      by (simp add: like_post_invalid)
  next
    case True
    note lp = like_post_valid [OF True, of token_data now db]
    show False
    proof (cases "select_post_likes db (vote_id vote) (map_of token_data ''user_email'')")
      case (Inl err)
      with a select_post_likes_error [OF Inl] show False
        by (simp add: lp)
    next
      case (Inr rows_opt)
      then obtain rows where rows: "rows_opt = Some rows"
        using select_post_likes_not_None [of db "vote_id vote" "map_of token_data ''user_email''"]
        by (cases rows_opt) auto
      from a Inr rows obtain voted vdata meth st
        where v: "voted = VoteManager vdata meth st now db"
          and f: "fst (finish_vote voted) = Inl (HTTPException 404 detail)"
        by (auto simp add: lp split: list.splits if_splits)
      from finish_vote_error [OF f] have "fst voted = Inl (HTTPException 404 detail)"
        by simp
      with VoteManager_error [of vdata meth st now db] v show False
        by auto
    qed
  qed
qed






section \<open>Repeated votes\<close>

lemma post_exists_like_post:
  "post_exists (snd (like_post vote token_data now db)) i = post_exists db i"
  by (simp add: post_exists_def like_post_posts)

lemma user_exists_like_post:
  "user_exists (snd (like_post vote token_data now db)) e = user_exists db e"
  by (simp add: user_exists_def like_post_users)

text \<open>
  C8 (as amended). For a direction \<open>d \<ge> 0\<close>, two applications of \<^verbatim>\<open>like_post\<close> in
  succession leave the same status after each, except in one case: the pair has no vote
  row yet, \<open>d = 0\<close>, and the store accepts the first vote row (the shared connection is
  not in a failed transaction, and the post, its id an \<^verbatim>\<open>INT\<close>, and the voter exist).
  There the first application records 1 and the second 0.
\<close>

theorem like_post_twice:
  assumes "direction_of_vote vote \<ge> 0" and "map_of token_data ''user_email'' = Some (Str e)"
  shows "((vote_status (snd (like_post vote token_data now' (snd (like_post vote token_data now db))))
             (vote_id vote) e
           = vote_status (snd (like_post vote token_data now db)) (vote_id vote) e)
          \<longleftrightarrow>
          \<not> (vote_status db (vote_id vote) e = None \<and> direction_of_vote vote = 0
             \<and> accepts_first_vote db (vote_id vote) e))
       \<and> (vote_status db (vote_id vote) e = None \<and> direction_of_vote vote = 0
             \<and> accepts_first_vote db (vote_id vote) e \<longrightarrow>
           vote_status (snd (like_post vote token_data now db)) (vote_id vote) e = Some 1
           \<and> vote_status (snd (like_post vote token_data now' (snd (like_post vote token_data now db))))
               (vote_id vote) e = Some 0)"
proof (cases "direction_of_vote vote \<in> {- 1, 0, 1}")
  case False
  then have "direction_of_vote vote \<noteq> 0"
    by auto
  with False show ?thesis
    by (simp add: like_post_invalid)
next
  case True
  define db1 where "db1 = snd (like_post vote token_data now db)"
  note st1 = like_post_status [where vote = vote and token_data = token_data and e = e
      and now = now and db = db, OF True assms(2), folded db1_def]
  note c1 = like_post_connection [where vote = vote and token_data = token_data and e = e
      and now = now and db = db, OF True assms(2), folded db1_def]
  note st2 = like_post_status [where vote = vote and token_data = token_data and e = e
      and now = now' and db = db1, OF True assms(2)]
  have pe: "post_exists db1 (vote_id vote) = post_exists db (vote_id vote)"
    and ue: "user_exists db1 e = user_exists db e"
    by (simp_all add: db1_def post_exists_like_post user_exists_like_post)
  from True assms(1) have d: "direction_of_vote vote = 0 \<or> direction_of_vote vote = 1"
    by auto
  have "((vote_status (snd (like_post vote token_data now' db1)) (vote_id vote) e
           = vote_status db1 (vote_id vote) e)
          \<longleftrightarrow>
          \<not> (vote_status db (vote_id vote) e = None \<and> direction_of_vote vote = 0
             \<and> accepts_first_vote db (vote_id vote) e))
       \<and> (vote_status db (vote_id vote) e = None \<and> direction_of_vote vote = 0
             \<and> accepts_first_vote db (vote_id vote) e \<longrightarrow>
           vote_status db1 (vote_id vote) e = Some 1
           \<and> vote_status (snd (like_post vote token_data now' db1)) (vote_id vote) e = Some 0)"
  proof (cases "in_failed_transaction db")
    case failed: True
    then show ?thesis
      by (simp add: st1 c1 st2 accepts_first_vote_def)
  next
    case healthy: False
    show ?thesis
    proof (cases "vote_status db (vote_id vote) e")
      case None
      with healthy d show ?thesis
        by (auto simp add: st1 c1 st2 pe ue accepts_first_vote_def)
    next
      case (Some x)
      with healthy d show ?thesis
        by (auto simp add: st1 c1 st2 pe ue)
    qed
  qed
  then show ?thesis
    by (simp add: db1_def)
qed

theorem like_post_twice_witness:
  "vote_status (snd (like_post (request 0 42) token_voter 6
       (snd (like_post (request 0 42) token_voter 5 (store [vote_row 1]))))) 42 voter
   = vote_status (snd (like_post (request 0 42) token_voter 5 (store [vote_row 1]))) 42 voter
   \<and> vote_status (snd (like_post (request 0 42) token_voter 5 (store []))) 42 voter = Some 1
   \<and> vote_status (snd (like_post (request 0 42) token_voter 6
       (snd (like_post (request 0 42) token_voter 5 (store []))))) 42 voter = Some 0"
proof -
  have d: "direction_of_vote (request 0 42) \<ge> 0"
    by (simp add: request_def)
  have i: "vote_id (request 0 42) = 42" and dd: "direction_of_vote (request 0 42) = 0"
    by (simp_all add: request_def)
  have a: "accepts_first_vote (store []) 42 voter"
    by (simp add: accepts_first_vote_def healthy_store post_exists_store user_exists_store int4_def)
  show ?thesis
    using like_post_twice [where vote = "request 0 42" and token_data = token_voter and e = voter
        and db = "store [vote_row 1]" and now = 5 and now' = 6, OF d token_voter_email]
      like_post_twice [where vote = "request 0 42" and token_data = token_voter and e = voter
        and db = "store []" and now = 5 and now' = 6, OF d token_voter_email]
    by (simp add: i dd a vote_status_store vote_status_store_empty)
qed

text \<open>The claim as written fails on a first vote of direction 0: status 1, then 0.\<close>

theorem like_post_twice_counterexample:
  "vote_status (snd (like_post (request 0 42) token_voter 5 (store []))) 42 voter = Some 1
   \<and> vote_status (snd (like_post (request 0 42) token_voter 6
       (snd (like_post (request 0 42) token_voter 5 (store []))))) 42 voter = Some 0"
  by (simp add: eval_defs)







section \<open>Lemmas on the token service\<close>

lemma str_split_nonempty: "str_split sep s \<noteq> []"
  by (induction s) (auto split: list.splits)

lemma str_split_free: "sep \<notin> set a \<Longrightarrow> str_split sep a = [a]"
  by (induction a) auto

lemma str_split_append:
  "sep \<notin> set a \<Longrightarrow> str_split sep (a @ sep # rest) = a # str_split sep rest"
  by (induction a) auto

lemma bit_char_eq [simp]: "(bit_char b = CHR ''1'') = b"
  by (simp add: bit_char_def)

lemma dec_str_enc_char: "dec_str (enc_char c @ rest) = c # dec_str rest"
  by (cases c) simp

lemma dec_enc_str: "dec_str (enc_str s) = s"
  by (induction s) (simp_all add: enc_str_def dec_str_enc_char)

lemma dec_enc_nat: "dec_nat (enc_nat n) = n"
proof (induction n rule: enc_nat.induct)
  case (1 n)
  show ?case
  proof (cases "n = 0")
    case True
    then show ?thesis by (simp add: enc_nat.simps)
  next
    case False
    with 1 have "dec_nat (enc_nat (n div 2)) = n div 2"
      by simp
    with False show ?thesis
      by (subst enc_nat.simps) (simp add: bit_char_def)
  qed
qed

lemma set_enc_char: "set (enc_char c) \<subseteq> {CHR ''0'', CHR ''1''}"
  by (cases c) (auto simp add: bit_char_def)

lemma set_enc_str: "set (enc_str s) \<subseteq> {CHR ''0'', CHR ''1''}"
  using set_enc_char by (induction s) (auto simp add: enc_str_def)

lemma set_enc_nat: "set (enc_nat n) \<subseteq> {CHR ''0'', CHR ''1''}"
proof (induction n rule: enc_nat.induct)
  case (1 n)
  then show ?case
    by (subst enc_nat.simps) (auto simp add: bit_char_def)
qed

lemma dec_enc_value: "dec_value (enc_value v) = Some v"
  by (cases v) (auto simp add: dec_value_def enc_value_def dec_enc_str dec_enc_nat)

lemma colon_enc_str: "CHR '':'' \<notin> set (enc_str s)"
  using set_enc_str [of s] by auto

lemma colon_enc_value: "CHR '':'' \<notin> set (enc_value v)"
  using set_enc_str set_enc_nat by (cases v) (auto simp add: enc_value_def)

lemma dec_enc_item: "dec_item (enc_item kv) = Some kv"
  by (simp add: dec_item_def enc_item_def str_split_append [OF colon_enc_str]
      str_split_free [OF colon_enc_value] dec_enc_value dec_enc_str)

lemma set_enc_item:
  "set (enc_item kv) \<subseteq> {CHR ''0'', CHR ''1'', CHR '':'', CHR ''s'', CHR ''p'', CHR ''m''}"
  using set_enc_str [of "fst kv"] set_enc_str set_enc_nat
  by (cases "snd kv") (auto simp add: enc_item_def enc_value_def)

lemma semi_enc_item: "CHR '';'' \<notin> set (enc_item kv)"
  using set_enc_item [of kv] by auto

lemma split_enc_items: "str_split CHR '';'' (enc_items ps) = map enc_item ps @ [[]]"
  by (induction ps) (simp_all add: enc_items_def str_split_append [OF semi_enc_item])

lemma those_map_Some: "those (map (\<lambda>x. Some (f x)) xs) = Some (map f xs)"
  by (induction xs) simp_all

lemma dec_enc_items: "dec_items (enc_items ps) = Some ps"
proof -
  have "map dec_item (map enc_item ps) = map (\<lambda>x. Some (id x)) ps"
    by (simp add: dec_enc_item comp_def)
  then show ?thesis
    by (simp add: dec_items_def split_enc_items those_map_Some del: map_map)
qed

lemma set_enc_items:
  "set (enc_items ps) \<subseteq> {CHR ''0'', CHR ''1'', CHR '':'', CHR ''s'', CHR ''p'', CHR ''m'', CHR '';''}"
  using set_enc_item by (induction ps) (auto simp add: enc_items_def)

lemma dot_enc_str: "CHR ''.'' \<notin> set (enc_str s)"
  using set_enc_str [of s] by auto

lemma dot_enc_items: "CHR ''.'' \<notin> set (enc_items ps)"
  using set_enc_items [of ps] by auto

lemma parse_serialise: "parse (serialise j) = Some j"
  by (simp add: parse_def serialise_def str_split_append [OF dot_enc_str]
      str_split_append [OF dot_enc_items] str_split_free [OF dot_enc_str]
      dec_enc_items dec_enc_str)

lemma space_serialise: "CHR '' '' \<notin> set (serialise j)"
  using set_enc_str [of "jws_alg j"] set_enc_str [of "jws_key j"] set_enc_items [of "jws_payload j"]
  by (auto simp add: serialise_def)

lemma split_bearer:
  "CHR '' '' \<notin> set token \<Longrightarrow> str_split CHR '' '' (''Bearer '' @ token) = [''Bearer'', token]"
  by (simp add: str_split_free)

lemma str_split_single: "(\<exists>w. str_split sep s = [w]) \<longleftrightarrow> sep \<notin> set s"
  by (induction s) (auto split: list.splits simp add: str_split_nonempty)

lemma map_of_update_exp: "map_of (AList.update ''exp'' v data) ''exp'' = Some v"
  by (simp add: update_conv')

lemma decode_bearer:
  assumes "CHR '' '' \<notin> set token"
  shows "decode_access_token lib cfg now (bearer token) =
     (case jwt_decode lib now token (secret_key cfg) [algorithm cfg] of
        Inr decoded_jwt \<Rightarrow> Inr decoded_jwt
      | Inl ExpiredSignatureError \<Rightarrow> Inl (HTTPException 401 ''Token has expired'')
      | Inl InvalidTokenError \<Rightarrow> Inl (HTTPException 401 ''Invalid token'')
      | Inl OtherPyJWTError \<Rightarrow> Inl PyJWTError)"
  unfolding decode_access_token_def bearer_def option.case split_bearer [OF assms] list.case
  by (rule refl)

text \<open>The reference library on the tokens it issues.\<close>

lemma ref_encode_HS256:
  "jwt_encode ref_pyjwt pl key ''HS256'' =
     Inr (serialise \<lparr>jws_alg = ''HS256'', jws_payload = pl, jws_key = key\<rparr>)"
  by (simp add: ref_pyjwt_def ref_encode_def)

lemma ref_decode_serialise:
  "jwt_decode ref_pyjwt now (serialise \<lparr>jws_alg = alg, jws_payload = pl, jws_key = key\<rparr>) key [alg] =
     (case (time_claim pl ''iat'', time_claim pl ''nbf'', time_claim pl ''exp'') of
        (Some iat_t, Some nbf_t, Some exp_t) \<Rightarrow>
          if (case iat_t of None \<Rightarrow> False | Some t \<Rightarrow> now < t) then Inl InvalidTokenError
          else if (case nbf_t of None \<Rightarrow> False | Some t \<Rightarrow> now < t) then Inl InvalidTokenError
          else if (case exp_t of None \<Rightarrow> False | Some t \<Rightarrow> t \<le> now)
          then Inl ExpiredSignatureError
          else Inr pl
      | _ \<Rightarrow> Inl InvalidTokenError)"
  by (simp add: ref_pyjwt_def ref_decode_def parse_serialise split: prod.splits option.splits)

lemma create_access_token_ref:
  assumes "algorithm cfg = ''HS256''"
  shows "create_access_token ref_pyjwt cfg now data =
     (if in_timedelta_range (60 * access_token_expire_minutes cfg)
          \<and> in_datetime_range (now + 60 * access_token_expire_minutes cfg)
      then Inr (serialise \<lparr>jws_alg = ''HS256'',
                  jws_payload = AList.update ''exp''
                    (Num (now + 60 * access_token_expire_minutes cfg)) data,
                  jws_key = secret_key cfg\<rparr>)
      else Inl OverflowError)"
  by (simp add: create_access_token_def Let_def assms ref_encode_HS256)

lemma validate_issued_ref:
  assumes "algorithm cfg = ''HS256''"
  shows "validate_issued ref_pyjwt cfg now now' data =
     (if in_timedelta_range (60 * access_token_expire_minutes cfg)
          \<and> in_datetime_range (now + 60 * access_token_expire_minutes cfg)
      then
        (case jwt_decode ref_pyjwt now'
                (serialise \<lparr>jws_alg = ''HS256'',
                   jws_payload = AList.update ''exp''
                     (Num (now + 60 * access_token_expire_minutes cfg)) data,
                   jws_key = secret_key cfg\<rparr>) (secret_key cfg) [''HS256''] of
           Inr decoded_jwt \<Rightarrow> Inr decoded_jwt
         | Inl ExpiredSignatureError \<Rightarrow> Inl (HTTPException 401 ''Token has expired'')
         | Inl InvalidTokenError \<Rightarrow> Inl (HTTPException 401 ''Invalid token'')
         | Inl OtherPyJWTError \<Rightarrow> Inl PyJWTError)
      else Inl OverflowError)"
  by (simp add: validate_issued_def create_access_token_ref [OF assms]
      decode_bearer [OF space_serialise] assms)

lemmas token_eval = ref_decode_serialise time_claim_def config_def login_claims_def
  in_datetime_range_def in_timedelta_range_def voter_def

section \<open>Issuing and validating a token\<close>

text \<open>
  C3 (as amended). Let the TTL be a timedelta and the expiration \<open>now + 60 * minutes\<close>
  a datetime, let the library issue a token without a space for the claims with \<^verbatim>\<open>exp\<close>
  set to the expiration, and let the library, at \<open>now'\<close>, return these claims for that
  token before the expiration and raise \<^verbatim>\<open>ExpiredSignatureError\<close> from it on. Then
  validating at \<open>now'\<close> the token issued at \<open>now\<close>, presented as a Bearer header,
  returns before the expiration the original claims with the key \<^verbatim>\<open>exp\<close> set to the
  expiration (added, or overwritten), and from the expiration on (\<open>now' \<ge> exp\<close>) fails
  with HTTP 401 "Token has expired".
\<close>

theorem token_roundtrip:
  assumes "in_timedelta_range (60 * access_token_expire_minutes cfg)"
    and "in_datetime_range (now + 60 * access_token_expire_minutes cfg)"
    and "jwt_encode lib (AList.update ''exp'' (Num (now + 60 * access_token_expire_minutes cfg)) data)
           (secret_key cfg) (algorithm cfg) = Inr token"
    and "CHR '' '' \<notin> set token"
    and "jwt_decode lib now' token (secret_key cfg) [algorithm cfg] =
           (if now + 60 * access_token_expire_minutes cfg \<le> now' then Inl ExpiredSignatureError
            else Inr (AList.update ''exp'' (Num (now + 60 * access_token_expire_minutes cfg)) data))"
  shows "create_access_token lib cfg now data = Inr token
       \<and> validate_issued lib cfg now now' data =
           (if now + 60 * access_token_expire_minutes cfg \<le> now'
            then Inl (HTTPException 401 ''Token has expired'')
            else Inr (AList.update ''exp'' (Num (now + 60 * access_token_expire_minutes cfg)) data))"
proof -
  have c: "create_access_token lib cfg now data = Inr token"
    using assms(1,2,3) by (simp add: create_access_token_def Let_def)
  show ?thesis
    by (simp add: c validate_issued_def decode_bearer [OF assms(4)] assms(5))
qed

theorem token_roundtrip_witness:
  "validate_issued ref_pyjwt config 1000 1000 login_claims =
     Inr [(''user_email'', Str voter), (''exp'', Num 2800)]
   \<and> validate_issued ref_pyjwt config 1000 2799 login_claims =
     Inr [(''user_email'', Str voter), (''exp'', Num 2800)]
   \<and> validate_issued ref_pyjwt config 1000 2800 login_claims =
     Inl (HTTPException 401 ''Token has expired'')"
proof -
  let ?pl = "[(''user_email'', Str voter), (''exp'', Num 2800)]"
  let ?token = "serialise \<lparr>jws_alg = ''HS256'', jws_payload = ?pl, jws_key = ''s3cret''\<rparr>"
  have m: "now + 60 * access_token_expire_minutes config = now + 1800" for now
    by (simp add: config_def)
  have k: "secret_key config = ''s3cret''" and a: "algorithm config = ''HS256''"
    by (simp_all add: config_def)
  have u: "AList.update ''exp'' (Num 2800) login_claims = ?pl"
    by (simp add: login_claims_def)
  have r: "in_datetime_range (1000 + 60 * access_token_expire_minutes config)"
    by (simp add: config_def in_datetime_range_def)
  have td: "in_timedelta_range (60 * access_token_expire_minutes config)"
    by (simp add: config_def in_timedelta_range_def)
  have e: "jwt_encode ref_pyjwt
        (AList.update ''exp'' (Num (1000 + 60 * access_token_expire_minutes config)) login_claims)
        (secret_key config) (algorithm config) = Inr ?token"
    by (simp add: m u k a ref_encode_HS256)
  have d: "jwt_decode ref_pyjwt now' ?token (secret_key config) [algorithm config] =
        (if 1000 + 60 * access_token_expire_minutes config \<le> now' then Inl ExpiredSignatureError
         else Inr (AList.update ''exp''
                     (Num (1000 + 60 * access_token_expire_minutes config)) login_claims))" for now'
    by (simp add: m u k a ref_decode_serialise time_claim_def voter_def)
  show ?thesis
    using token_roundtrip [OF td r e space_serialise d, of 1000]
      token_roundtrip [OF td r e space_serialise d, of 2799]
      token_roundtrip [OF td r e space_serialise d, of 2800]
    by (simp add: m u)
qed

text \<open>
  The claim as written fails on each of these inputs. The claims returned for a login
  token hold \<^verbatim>\<open>exp\<close> besides the original ones; an \<^verbatim>\<open>exp\<close> among the original claims is
  overwritten; with a TTL of 0 the fresh token is already expired; with a TTL of
  5000000000 minutes the expiration is no datetime and no token is issued; and claims with
  \<^verbatim>\<open>nbf\<close> in the future are signed into a token that the library refuses.
\<close>

theorem token_roundtrip_counterexample:
  "validate_issued ref_pyjwt config 1000 1000 login_claims
     = Inr (login_claims @ [(''exp'', Num 2800)])
   \<and> validate_issued ref_pyjwt config 1000 1000 login_claims \<noteq> Inr login_claims
   \<and> validate_issued ref_pyjwt config 1000 1000 [(''exp'', Num 5), (''user_email'', Str voter)]
     = Inr [(''exp'', Num 2800), (''user_email'', Str voter)]
   \<and> validate_issued ref_pyjwt (config\<lparr>access_token_expire_minutes := 0\<rparr>) 1000 1000 login_claims
     = Inl (HTTPException 401 ''Token has expired'')
   \<and> validate_issued ref_pyjwt (config\<lparr>access_token_expire_minutes := 5000000000\<rparr>) 1000 1000
       login_claims
     = Inl OverflowError
   \<and> validate_issued ref_pyjwt config 1000 1000 [(''nbf'', Num 5000), (''user_email'', Str voter)]
     = Inl (HTTPException 401 ''Invalid token'')"
proof -
  have a: "algorithm config = ''HS256''"
    and b: "algorithm (config\<lparr>access_token_expire_minutes := t\<rparr>) = ''HS256''" for t
    by (simp_all add: config_def)
  show ?thesis
    unfolding validate_issued_ref [OF a] validate_issued_ref [OF b]
    by (simp add: token_eval)
qed

section \<open>Rejected headers\<close>

text \<open>
  C7. A header of one word, such as \<^verbatim>\<open>Bearer\<close> alone, is not answered with HTTP 401:
  \<^verbatim>\<open>Authorization.split(" ")[1]\<close> raises \<^verbatim>\<open>IndexError\<close> before the \<^verbatim>\<open>try\<close>, whatever the
  library, the settings and the time.
\<close>

theorem decode_access_token_no_space:
  "decode_access_token lib cfg now (Some ''Bearer'') = Inl IndexError
   \<and> decode_access_token lib cfg now (Some ''Bearer'') \<noteq> Inl (HTTPException 401 ''Invalid token'')"
  by (simp add: decode_access_token_def)

text \<open>
  The outcomes of \<^verbatim>\<open>decode_access_token\<close>: HTTP 401 "Authorization header missing" without
  a header; \<^verbatim>\<open>IndexError\<close> exactly for a header without a space; and for every other
  header the decoded claims, HTTP 401 "Token has expired", HTTP 401 "Invalid token", or
  an exception of the library that is no \<^verbatim>\<open>InvalidTokenError\<close>, uncaught.
\<close>

theorem decode_access_token_outcomes:
  "decode_access_token lib cfg now None = Inl (HTTPException 401 ''Authorization header missing'')
   \<and> (decode_access_token lib cfg now (Some header) = Inl IndexError \<longleftrightarrow> CHR '' '' \<notin> set header)
   \<and> (CHR '' '' \<in> set header \<longrightarrow>
        (\<exists>decoded. decode_access_token lib cfg now (Some header) = Inr decoded)
        \<or> decode_access_token lib cfg now (Some header) = Inl (HTTPException 401 ''Token has expired'')
        \<or> decode_access_token lib cfg now (Some header) = Inl (HTTPException 401 ''Invalid token'')
        \<or> decode_access_token lib cfg now (Some header) = Inl PyJWTError)"
proof -
  have a: "decode_access_token lib cfg now None = Inl (HTTPException 401 ''Authorization header missing'')"
    by (simp add: decode_access_token_def)
  have b: "decode_access_token lib cfg now (Some header) = Inl IndexError" if "CHR '' '' \<notin> set header"
    using that by (simp add: decode_access_token_def str_split_free)
  have c: "((\<exists>decoded. decode_access_token lib cfg now (Some header) = Inr decoded)
        \<or> decode_access_token lib cfg now (Some header) = Inl (HTTPException 401 ''Token has expired'')
        \<or> decode_access_token lib cfg now (Some header) = Inl (HTTPException 401 ''Invalid token'')
        \<or> decode_access_token lib cfg now (Some header) = Inl PyJWTError)
        \<and> decode_access_token lib cfg now (Some header) \<noteq> Inl IndexError"
    if "CHR '' '' \<in> set header"
  proof -
    from that str_split_single [of "CHR '' ''" header] str_split_nonempty [of "CHR '' ''" header]
    obtain w token rest where "str_split CHR '' '' header = w # token # rest"
      by (cases "str_split CHR '' '' header"; cases "tl (str_split CHR '' '' header)") auto
    then show ?thesis
      by (cases "jwt_decode lib now token (secret_key cfg) [algorithm cfg]")
         (auto simp add: decode_access_token_def split: jwt_exception.splits)
  qed
  from a b c show ?thesis
    by (cases "CHR '' '' \<in> set header") auto
qed

theorem decode_access_token_outcomes_witness:
  "decode_access_token ref_pyjwt config 1000 None =
     Inl (HTTPException 401 ''Authorization header missing'')
   \<and> decode_access_token ref_pyjwt config 1000 (Some ''Bearer x'') =
     Inl (HTTPException 401 ''Invalid token'')"
  using decode_access_token_outcomes [of ref_pyjwt config 1000 "''Bearer x''"]
  by (simp add: decode_access_token_def ref_pyjwt_def ref_decode_def parse_def)

end
